theory Spec2Isabelle
  imports Main "HOL-Library.List_Lexorder" "HOL-Library.Char_ord"
begin

section \<open>Python values and library calls\<close>

text \<open>
  The scripts of the repository decode each input line with \<^verbatim>\<open>json.loads\<close> and work
  on the decoded Python value.  A decoded value is a \<open>json\<close>: \<open>JNull\<close> is Python's
  \<^verbatim>\<open>None\<close>, \<open>JObj\<close> a \<^verbatim>\<open>dict\<close> (its items in insertion order, looked up
  with \<open>map_of\<close>), \<open>JArr\<close> a \<^verbatim>\<open>list\<close>.  The scripts never compute on a number,
  they only copy it.
\<close>

datatype pyfloat = Finite int int | PosInf | NegInf | NaN

datatype json =
    JNull
  | JBool bool
  | JInt int
  | JFloat pyfloat
  | JStr string
  | JArr "json list"
  | JObj "(string \<times> json) list"

text \<open>
  The exceptions the scripts can meet.  \<^verbatim>\<open>KeyboardInterrupt\<close> is the one that is not
  an \<^verbatim>\<open>Exception\<close>, so \<^verbatim>\<open>except Exception\<close> lets it pass.
\<close>

datatype exn =
    JSONDecodeError
  | KeyError string
  | TypeError
  | AttributeError
  | ValueError
  | RecursionError
  | UnicodeDecodeError
  | KeyboardInterrupt

fun is_Exception :: "exn \<Rightarrow> bool" where
  "is_Exception KeyboardInterrupt = False"
| "is_Exception e = True"

text \<open>
  The library functions the scripts call are not part of the repository; they are the
  parameters of the model.  \<open>json_loads\<close> is \<^verbatim>\<open>json.loads\<close> (\<open>None\<close> when it
  raises; the exception is recorded as \<^verbatim>\<open>JSONDecodeError\<close>), \<open>str_strip\<close> is
  \<^verbatim>\<open>str.strip\<close>, and \<open>str_of\<close> is \<^verbatim>\<open>str()\<close> of a value that is not a
  string, as an f-string formats it: the text, or the exception it raises (a
  \<^verbatim>\<open>ValueError\<close> for an integer of more than 4300 digits, for one).  Every theorem
  below holds for all three, whatever they compute.
\<close>

record pylib =
  json_loads :: "string \<Rightarrow> json option"
  str_strip :: "string \<Rightarrow> string"
  str_of :: "json \<Rightarrow> exn + string"

text \<open>\<^verbatim>\<open>request.get(k)\<close>: only a dict has the method; a missing key gives None.\<close>

fun py_get :: "json \<Rightarrow> string \<Rightarrow> exn + json" where
  "py_get (JObj kv) k = Inr (case map_of kv k of None \<Rightarrow> JNull | Some v \<Rightarrow> v)"
| "py_get _ k = Inl AttributeError"

text \<open>
  \<^verbatim>\<open>request[k]\<close> with a string \<open>k\<close>: KeyError on a dict without the key, TypeError
  on every other decoded value (a list or a string wants an integer index, the rest is not
  subscriptable).
\<close>

fun py_item :: "json \<Rightarrow> string \<Rightarrow> exn + json" where
  "py_item (JObj kv) k = (case map_of kv k of None \<Rightarrow> Inl (KeyError k) | Some v \<Rightarrow> Inr v)"
| "py_item _ k = Inl TypeError"

text \<open>\<^verbatim>\<open>arguments.get(k, default)\<close> on a dict.\<close>

definition dict_get :: "(string \<times> json) list \<Rightarrow> string \<Rightarrow> json \<Rightarrow> json" where
  "dict_get d k dflt = (case map_of d k of None \<Rightarrow> dflt | Some v \<Rightarrow> v)"

text \<open>
  A value inside an f-string: a string stands for itself, every other value goes through
  \<^verbatim>\<open>str()\<close>, which may raise.
\<close>

fun fmt :: "pylib \<Rightarrow> json \<Rightarrow> exn + string" where
  "fmt L (JStr s) = Inr s"
| "fmt L v = str_of L v"

section \<open>Standard input, output and error\<close>

text \<open>
  Standard input is the list of what successive reads of \<^verbatim>\<open>sys.stdin\<close> do: a read
  returns a string (\<open>Line\<close>; the empty string is an end-of-file read, and a read past
  the list is one too) or raises (\<open>Raises\<close>: \<^verbatim>\<open>UnicodeDecodeError\<close> on bytes the
  stream cannot decode, \<^verbatim>\<open>KeyboardInterrupt\<close> on an interrupt).  Standard output holds
  the values handed to \<^verbatim>\<open>print(json.dumps(...))\<close>, one per line written; standard
  error holds the diagnostics.
\<close>

datatype read = Line string | Raises exn

datatype log = Banner string | Received json | Error exn

record io =
  stdout :: "json list"
  stderr :: "log list"

datatype exit = Returned | Uncaught exn

record run =
  exit :: exit
  unread :: "read list"
  out :: io

definition print_out :: "json \<Rightarrow> io \<Rightarrow> io" where
  "print_out v w = w\<lparr>stdout := stdout w @ [v]\<rparr>"

definition print_err :: "log \<Rightarrow> io \<Rightarrow> io" where
  "print_err l w = w\<lparr>stderr := stderr w @ [l]\<rparr>"

section \<open>The responses the scripts build\<close>

definition initialize_result :: json where
  "initialize_result =
     JObj [(''protocolVersion'', JStr ''2024-11-05''),
           (''capabilities'', JObj [(''tools'', JObj [])]),
           (''serverInfo'', JObj [(''name'', JStr ''architecture-server''),
                                  (''version'', JStr ''1.0.0'')])]"

definition tools_list_result :: json where
  "tools_list_result =
     JObj [(''tools'', JArr [JObj
       [(''name'', JStr ''architecture_status''),
        (''description'', JStr ''Get architecture status''),
        (''inputSchema'', JObj [(''type'', JStr ''object''), (''properties'', JObj [])])]])]"

definition response :: "json \<Rightarrow> json \<Rightarrow> json" where
  "response i r = JObj [(''jsonrpc'', JStr ''2.0''), (''id'', i), (''result'', r)]"

section \<open>simple\_server.py\<close>

text \<open>
  \<^verbatim>\<open>send_response\<close> prints the dumped response and flushes.
\<close>

definition send_response :: "json \<Rightarrow> io \<Rightarrow> io" where
  "send_response r w = print_out r w"

text \<open>
  The body of the \<^verbatim>\<open>try\<close> of \<^verbatim>\<open>main\<close> for one line: the exception it raises, if
  any, and the streams as they are then.
\<close>

definition simple_try :: "pylib \<Rightarrow> string \<Rightarrow> io \<Rightarrow> exn option \<times> io" where
  "simple_try L line w =
     (case json_loads L (str_strip L line) of
        None \<Rightarrow> (Some JSONDecodeError, w)
      | Some request \<Rightarrow>
          (case py_get request ''method'' of
             Inl e \<Rightarrow> (Some e, w)
           | Inr m \<Rightarrow>
               if m = JStr ''initialize'' then
                 (case py_item request ''id'' of
                    Inl e \<Rightarrow> (Some e, w)
                  | Inr i \<Rightarrow> (None, send_response (response i initialize_result) w))
               else if m = JStr ''tools/list'' then
                 (case py_item request ''id'' of
                    Inl e \<Rightarrow> (Some e, w)
                  | Inr i \<Rightarrow> (None, send_response (response i tools_list_result) w))
               else (None, w)))"

text \<open>One turn of the loop: the \<^verbatim>\<open>try\<close> and its \<^verbatim>\<open>except Exception\<close>.\<close>

definition simple_turn :: "pylib \<Rightarrow> string \<Rightarrow> io \<Rightarrow> io" where
  "simple_turn L line w =
     (case simple_try L line w of
        (None, w') \<Rightarrow> w'
      | (Some e, w') \<Rightarrow> print_err (Error e) w')"

text \<open>
  \<^verbatim>\<open>for line in sys.stdin\<close>: the iteration stops at the first end-of-file read.  The
  \<^verbatim>\<open>for\<close> statement stands outside the \<^verbatim>\<open>try\<close>, so a read that raises ends
  \<^verbatim>\<open>main\<close> with the exception.
\<close>

fun simple_loop :: "pylib \<Rightarrow> read list \<Rightarrow> io \<Rightarrow> run" where
  "simple_loop L [] w = \<lparr>exit = Returned, unread = [], out = w\<rparr>"
| "simple_loop L (Raises e # rest) w = \<lparr>exit = Uncaught e, unread = rest, out = w\<rparr>"
| "simple_loop L (Line line # rest) w =
     (if line = [] then \<lparr>exit = Returned, unread = rest, out = w\<rparr>
      else simple_loop L rest (simple_turn L line w))"

definition simple_main :: "pylib \<Rightarrow> read list \<Rightarrow> run" where
  "simple_main L input =
     simple_loop L input
       (print_err (Banner ''Architecture MCP Server starting'') \<lparr>stdout = [], stderr = []\<rparr>)"

section \<open>basic\_server.py\<close>

definition basic_try :: "pylib \<Rightarrow> string \<Rightarrow> io \<Rightarrow> exn option \<times> io" where
  "basic_try L line w =
     (case json_loads L (str_strip L line) of
        None \<Rightarrow> (Some JSONDecodeError, w)
      | Some request \<Rightarrow>
          (case py_item request ''method'' of
             Inl e \<Rightarrow> (Some e, w)
           | Inr shown \<Rightarrow>
               (let w1 = print_err (Received shown) w in
                case py_get request ''method'' of
                  Inl e \<Rightarrow> (Some e, w1)
                | Inr m \<Rightarrow>
                    if m = JStr ''initialize'' then
                      (case py_item request ''id'' of
                         Inl e \<Rightarrow> (Some e, w1)
                       | Inr i \<Rightarrow>
                           (None, print_err (Banner ''Initialized'')
                                    (print_out (response i initialize_result) w1)))
                    else (None, w1))))"

definition basic_turn :: "pylib \<Rightarrow> string \<Rightarrow> io \<Rightarrow> io" where
  "basic_turn L line w =
     (case basic_try L line w of
        (None, w') \<Rightarrow> w'
      | (Some e, w') \<Rightarrow> print_err (Error e) w')"

text \<open>
  \<^verbatim>\<open>while True\<close> with \<^verbatim>\<open>readline\<close>: \<^verbatim>\<open>if not line: break\<close> leaves the loop at
  the first empty read.  The read stands inside the \<^verbatim>\<open>try\<close>: when it raises an
  \<^verbatim>\<open>Exception\<close> the handler logs it and the loop reads on; another exception ends
  \<^verbatim>\<open>main\<close>.
\<close>

fun basic_loop :: "pylib \<Rightarrow> read list \<Rightarrow> io \<Rightarrow> run" where
  "basic_loop L [] w = \<lparr>exit = Returned, unread = [], out = w\<rparr>"
| "basic_loop L (Raises e # rest) w =
     (if is_Exception e then basic_loop L rest (print_err (Error e) w)
      else \<lparr>exit = Uncaught e, unread = rest, out = w\<rparr>)"
| "basic_loop L (Line line # rest) w =
     (if line = [] then \<lparr>exit = Returned, unread = rest, out = w\<rparr>
      else basic_loop L rest (basic_turn L line w))"

definition basic_main :: "pylib \<Rightarrow> read list \<Rightarrow> run" where
  "basic_main L input =
     basic_loop L input
       (print_err (Banner ''Architecture server starting'') \<lparr>stdout = [], stderr = []\<rparr>)"

section \<open>minimal.py and minimal\_server.py\<close>

text \<open>One \<^verbatim>\<open>sys.stdin.readline()\<close>: what the read does, and the input left.\<close>

fun readline :: "read list \<Rightarrow> read \<times> read list" where
  "readline [] = (Line [], [])"
| "readline (r # rest) = (r, rest)"

text \<open>
  The loop that keeps minimal.py alive reads until a read is empty and writes nothing; it
  returns the input left unread.  Its bare \<^verbatim>\<open>except\<close> leaves the loop on every
  exception of the read, so \<^verbatim>\<open>main\<close> returns then too.
\<close>

fun keep_alive :: "read list \<Rightarrow> read list" where
  "keep_alive [] = []"
| "keep_alive (Raises e # rest) = rest"
| "keep_alive (Line line # rest) = (if line = [] then rest else keep_alive rest)"

text \<open>
  The loop of minimal\_server.py catches \<^verbatim>\<open>KeyboardInterrupt\<close> only: every other
  exception of the read ends \<^verbatim>\<open>main\<close>.
\<close>

fun keep_running :: "read list \<Rightarrow> exit \<times> read list" where
  "keep_running [] = (Returned, [])"
| "keep_running (Raises e # rest) =
     (if e = KeyboardInterrupt then (Returned, rest) else (Uncaught e, rest))"
| "keep_running (Line line # rest) = (if line = [] then (Returned, rest) else keep_running rest)"

text \<open>
  \<^verbatim>\<open>main\<close> of minimal.py.  The first line is read and decoded outside any
  \<^verbatim>\<open>try\<close>, so an exception of the read, of \<^verbatim>\<open>json.loads\<close> or of
  \<^verbatim>\<open>request["id"]\<close> leaves \<^verbatim>\<open>main\<close>.
\<close>

definition minimal_main :: "pylib \<Rightarrow> read list \<Rightarrow> run" where
  "minimal_main L input =
     (case readline input of
        (Raises e, rest) \<Rightarrow>
          \<lparr>exit = Uncaught e, unread = rest, out = \<lparr>stdout = [], stderr = []\<rparr>\<rparr>
      | (Line line, rest) \<Rightarrow>
          (case json_loads L line of
             None \<Rightarrow> \<lparr>exit = Uncaught JSONDecodeError, unread = rest,
                       out = \<lparr>stdout = [], stderr = []\<rparr>\<rparr>
           | Some request \<Rightarrow>
               (case py_item request ''id'' of
                  Inl e \<Rightarrow> \<lparr>exit = Uncaught e, unread = rest,
                             out = \<lparr>stdout = [], stderr = []\<rparr>\<rparr>
                | Inr i \<Rightarrow>
                    \<lparr>exit = Returned, unread = keep_alive rest,
                     out = print_out (response i initialize_result)
                             \<lparr>stdout = [], stderr = []\<rparr>\<rparr>)))"

text \<open>minimal\_server.py is the same \<^verbatim>\<open>main\<close> with two lines on standard error.\<close>

definition minimal_server_main :: "pylib \<Rightarrow> read list \<Rightarrow> run" where
  "minimal_server_main L input =
     (let w0 = print_err (Banner ''Architecture MCP Server starting...'')
                 \<lparr>stdout = [], stderr = []\<rparr>
      in case readline input of
        (Raises e, rest) \<Rightarrow> \<lparr>exit = Uncaught e, unread = rest, out = w0\<rparr>
      | (Line line, rest) \<Rightarrow>
          (case json_loads L line of
             None \<Rightarrow> \<lparr>exit = Uncaught JSONDecodeError, unread = rest, out = w0\<rparr>
           | Some request \<Rightarrow>
               (case py_item request ''id'' of
                  Inl e \<Rightarrow> \<lparr>exit = Uncaught e, unread = rest, out = w0\<rparr>
                | Inr i \<Rightarrow>
                    (case keep_running rest of
                       (how, left) \<Rightarrow>
                         \<lparr>exit = how, unread = left,
                          out = print_err (Banner ''Server initialized'')
                                  (print_out (response i initialize_result) w0)\<rparr>))))"

section \<open>server\_fixed.py and working\_server.py\<close>

datatype tool = Tool (tool_name: string) (tool_description: string) (tool_inputSchema: json)

datatype text_content = TextContent (content_type: string) (content_text: string)

definition add_pattern_schema :: json where
  "add_pattern_schema =
     JObj [(''type'', JStr ''object''),
           (''properties'', JObj [(''pattern_type'', JObj [(''type'', JStr ''string'')]),
                                  (''pattern_data'', JObj [(''type'', JStr ''string'')])]),
           (''required'', JArr [JStr ''pattern_type'', JStr ''pattern_data''])]"

text \<open>\<^verbatim>\<open>list_tools\<close> of server\_fixed.py.\<close>

definition list_tools :: "tool list" where
  "list_tools =
     [Tool ''architecture_status'' ''Get current architecture status''
        (JObj [(''type'', JStr ''object''), (''properties'', JObj [])]),
      Tool ''add_pattern'' ''Add new architectural pattern'' add_pattern_schema]"


text \<open>
  \<^verbatim>\<open>call_tool\<close>, the same text in both files.  The \<^verbatim>\<open>if\<close>/\<^verbatim>\<open>elif\<close> chain has no
  \<^verbatim>\<open>else\<close>: for another name the function falls off its end and returns Python's
  \<^verbatim>\<open>None\<close>, which is the \<open>Inr None\<close> here.  The f-string formats
  \<^verbatim>\<open>pattern_type\<close> first; an exception of \<^verbatim>\<open>str()\<close> leaves the function
  (\<open>Inl\<close>).
\<close>

definition call_tool ::
  "pylib \<Rightarrow> string \<Rightarrow> (string \<times> json) list \<Rightarrow> exn + text_content list option" where
  "call_tool L name arguments =
     (if name = ''architecture_status'' then
        Inr (Some [TextContent ''text''
                ''Architecture v10.8 operational with professional accuracy enforcement''])
      else if name = ''add_pattern'' then
        (let pattern_type = dict_get arguments ''pattern_type'' (JStr ''unknown'');
             pattern_data = dict_get arguments ''pattern_data'' (JStr '''')
         in case fmt L pattern_type of
              Inl e \<Rightarrow> Inl e
            | Inr shown_type \<Rightarrow>
                (case fmt L pattern_data of
                   Inl e \<Rightarrow> Inl e
                 | Inr shown_data \<Rightarrow>
                     Inr (Some [TextContent ''text''
                                  (''Pattern '' @ shown_type @ '' added: '' @ shown_data)])))
      else Inr None)"

text \<open>
  The names a tool's input schema lists under \<^verbatim>\<open>required\<close> (none when the schema has
  no such member).
\<close>

fun str_items :: "json list \<Rightarrow> string list" where
  "str_items [] = []"
| "str_items (JStr s # vs) = s # str_items vs"
| "str_items (v # vs) = str_items vs"

definition required_of :: "tool \<Rightarrow> string list" where
  "required_of t =
     (case py_get (tool_inputSchema t) ''required'' of
        Inr (JArr names) \<Rightarrow> str_items names
      | _ \<Rightarrow> [])"

section \<open>A concrete library for the examples\<close>

text \<open>
  The examples below run the scripts on a handful of input lines.  \<open>ascii_strip\<close> is
  \<^verbatim>\<open>str.strip\<close> on ASCII text, and \<open>example_loads\<close> agrees with
  \<^verbatim>\<open>json.loads\<close> on every line the examples use: the four requests decode to their
  dicts, and the text \<^verbatim>\<open>not json\<close> and the empty string are refused.  No example
  formats a value that is not a string, so \<open>str_of\<close> is never called in them.
\<close>

definition is_space :: "char \<Rightarrow> bool" where
  "is_space c = (c \<in> set [CHR 0x09, CHR 0x0A, CHR 0x0B, CHR 0x0C, CHR 0x0D,
                            CHR 0x1C, CHR 0x1D, CHR 0x1E, CHR 0x1F, CHR 0x20])"

definition ascii_strip :: "string \<Rightarrow> string" where
  "ascii_strip s = rev (dropWhile is_space (rev (dropWhile is_space s)))"

definition line_initialize :: string where
  \<open>line_initialize = ''{"jsonrpc":"2.0","id":1,"method":"initialize","params":{}}'' @ [CHR 0x0A]\<close>

definition line_tools_list :: string where
  \<open>line_tools_list = ''{"jsonrpc":"2.0","id":2,"method":"tools/list"}'' @ [CHR 0x0A]\<close>

definition line_resources_list :: string where
  \<open>line_resources_list = ''{"jsonrpc":"2.0","id":3,"method":"resources/list"}'' @ [CHR 0x0A]\<close>

definition line_initialize_again :: string where
  \<open>line_initialize_again = ''{"jsonrpc":"2.0","id":4,"method":"initialize","params":{}}'' @ [CHR 0x0A]\<close>

definition line_not_json :: string where
  "line_not_json = ''not json'' @ [CHR 0x0A]"

definition req_initialize :: "(string \<times> json) list" where
  "req_initialize = [(''jsonrpc'', JStr ''2.0''), (''id'', JInt 1),
                     (''method'', JStr ''initialize''), (''params'', JObj [])]"

definition req_tools_list :: "(string \<times> json) list" where
  "req_tools_list = [(''jsonrpc'', JStr ''2.0''), (''id'', JInt 2),
                     (''method'', JStr ''tools/list'')]"

definition req_resources_list :: "(string \<times> json) list" where
  "req_resources_list = [(''jsonrpc'', JStr ''2.0''), (''id'', JInt 3),
                         (''method'', JStr ''resources/list'')]"

definition req_initialize_again :: "(string \<times> json) list" where
  "req_initialize_again = [(''jsonrpc'', JStr ''2.0''), (''id'', JInt 4),
                           (''method'', JStr ''initialize''), (''params'', JObj [])]"

definition example_loads :: "string \<Rightarrow> json option" where
  \<open>example_loads s =
     map_of
       [(''{"jsonrpc":"2.0","id":1,"method":"initialize","params":{}}'', JObj req_initialize),
        (''{"jsonrpc":"2.0","id":2,"method":"tools/list"}'', JObj req_tools_list),
        (''{"jsonrpc":"2.0","id":3,"method":"resources/list"}'', JObj req_resources_list),
        (''{"jsonrpc":"2.0","id":4,"method":"initialize","params":{}}'',
           JObj req_initialize_again)]
       (ascii_strip s)\<close>

definition example_lib :: pylib where
  "example_lib =
     \<lparr>json_loads = example_loads, str_strip = ascii_strip, str_of = (\<lambda>v. Inr [])\<rparr>"

section \<open>The example lines decoded\<close>

lemma strip_examples:
  "ascii_strip line_initialize = butlast line_initialize"
  "ascii_strip line_tools_list = butlast line_tools_list"
  "ascii_strip line_resources_list = butlast line_resources_list"
  "ascii_strip line_initialize_again = butlast line_initialize_again"
  "ascii_strip line_not_json = butlast line_not_json"
  by (simp_all add: ascii_strip_def is_space_def line_initialize_def line_tools_list_def
      line_resources_list_def line_initialize_again_def line_not_json_def)

lemma strip_stripped:
  "ascii_strip (butlast line_initialize) = butlast line_initialize"
  "ascii_strip (butlast line_tools_list) = butlast line_tools_list"
  "ascii_strip (butlast line_resources_list) = butlast line_resources_list"
  "ascii_strip (butlast line_initialize_again) = butlast line_initialize_again"
  "ascii_strip (butlast line_not_json) = butlast line_not_json"
  by (simp_all add: ascii_strip_def is_space_def line_initialize_def line_tools_list_def
      line_resources_list_def line_initialize_again_def line_not_json_def)

lemma loads_raw:
  "json_loads example_lib line_initialize = Some (JObj req_initialize)"
  "json_loads example_lib line_tools_list = Some (JObj req_tools_list)"
  "json_loads example_lib line_resources_list = Some (JObj req_resources_list)"
  "json_loads example_lib line_initialize_again = Some (JObj req_initialize_again)"
  "json_loads example_lib line_not_json = None"
  by (simp_all add: example_lib_def example_loads_def strip_examples)
    (simp_all add: line_initialize_def line_tools_list_def line_resources_list_def
      line_initialize_again_def line_not_json_def)

lemma loads_empty: "json_loads example_lib [] = None"
  by (simp add: example_lib_def example_loads_def ascii_strip_def)

lemma loads_stripped:
  "json_loads example_lib (str_strip example_lib line_initialize) = Some (JObj req_initialize)"
  "json_loads example_lib (str_strip example_lib line_tools_list) = Some (JObj req_tools_list)"
  "json_loads example_lib (str_strip example_lib line_resources_list)
     = Some (JObj req_resources_list)"
  "json_loads example_lib (str_strip example_lib line_initialize_again)
     = Some (JObj req_initialize_again)"
  "json_loads example_lib (str_strip example_lib line_not_json) = None"
  by (simp_all add: example_lib_def example_loads_def strip_examples strip_stripped)
    (simp_all add: line_initialize_def line_tools_list_def line_resources_list_def
      line_initialize_again_def line_not_json_def)

lemma lines_nonempty:
  "line_initialize \<noteq> []" "line_tools_list \<noteq> []" "line_resources_list \<noteq> []"
  "line_initialize_again \<noteq> []" "line_not_json \<noteq> []"
  by (simp_all add: line_initialize_def line_tools_list_def line_resources_list_def
      line_initialize_again_def line_not_json_def)

section \<open>Printing\<close>

lemma stdout_print [simp]:
  "stdout (print_out v w) = stdout w @ [v]"
  "stdout (print_err l w) = stdout w"
  "stderr (print_out v w) = stderr w"
  "stderr (print_err l w) = stderr w @ [l]"
  by (simp_all add: print_out_def print_err_def)

section \<open>The loop of simple\_server.py, line by line\<close>

text \<open>
  In the statements below \<open>map Line pre\<close> with \<open>[] \<notin> set pre\<close> is a run of reads that
  deliver lines, none of them an end-of-file read, so that the loop goes through all of
  them and reaches what follows.
\<close>

lemma simple_turn_stdout:
  "stdout (simple_turn L line w) =
     stdout w @ stdout (simple_turn L line \<lparr>stdout = [], stderr = []\<rparr>)"
  by (simp add: simple_turn_def simple_try_def send_response_def
      split: option.splits sum.splits)


lemma simple_loop_lines:
  "[] \<notin> set pre \<Longrightarrow>
     simple_loop L (map Line pre @ post) w = simple_loop L post (fold (simple_turn L) pre w)"
  by (induction pre arbitrary: w) auto

lemma simple_loop_frame:
  "exit (simple_loop L xs w) = exit (simple_loop L xs w')"
  "unread (simple_loop L xs w) = unread (simple_loop L xs w')"
proof (induction xs arbitrary: w w')
  case Nil
  {
    case 1 show ?case by simp
  next
    case 2 show ?case by simp
  }
next
  case (Cons x xs)
  {
    case 1 show ?case using Cons.IH(1) by (cases x) auto
  next
    case 2 show ?case using Cons.IH(2) by (cases x) auto
  }
qed

lemma simple_loop_stdout:
  "stdout (out (simple_loop L xs w)) =
     stdout w @ stdout (out (simple_loop L xs \<lparr>stdout = [], stderr = []\<rparr>))"
proof (induction xs arbitrary: w)
  case Nil
  show ?case by simp
next
  case (Cons x xs)
  let ?e = "\<lparr>stdout = [], stderr = []\<rparr>"
  show ?case
  proof (cases x)
    case (Raises e)
    then show ?thesis by simp
  next
    case (Line line)
    show ?thesis
    proof (cases "line = []")
      case True
      with Line show ?thesis by simp
    next
      case False
      have "stdout (out (simple_loop L (x # xs) w)) =
              stdout (simple_turn L line w) @ stdout (out (simple_loop L xs ?e))"
        using False Line Cons.IH [of "simple_turn L line w"] by simp
      moreover have "stdout (out (simple_loop L (x # xs) ?e)) =
              stdout (simple_turn L line ?e) @ stdout (out (simple_loop L xs ?e))"
        using False Line Cons.IH [of "simple_turn L line ?e"] by simp
      ultimately show ?thesis
        using simple_turn_stdout [of L line w] by simp
    qed
  qed
qed

lemma simple_main_lines:
  "[] \<notin> set pre \<Longrightarrow>
     simple_main L (map Line pre) =
       \<lparr>exit = Returned, unread = [],
        out = fold (simple_turn L) pre
                (print_err (Banner ''Architecture MCP Server starting'')
                   \<lparr>stdout = [], stderr = []\<rparr>)\<rparr>"
  using simple_loop_lines [of pre L "[]"] by (simp add: simple_main_def)

lemma simple_main_snoc:
  assumes "[] \<notin> set pre" and "line \<noteq> []"
  shows "simple_main L (map Line pre @ [Line line]) =
           \<lparr>exit = Returned, unread = [],
            out = simple_turn L line (out (simple_main L (map Line pre)))\<rparr>"
  using assms by (simp add: simple_main_lines) (simp add: simple_main_def simple_loop_lines)

lemma simple_turn_object:
  assumes "json_loads L (str_strip L line) = Some (JObj req)"
  shows "simple_turn L line w =
     (if map_of req ''method'' = Some (JStr ''initialize'') then
        (case map_of req ''id'' of
           None \<Rightarrow> print_err (Error (KeyError ''id'')) w
         | Some i \<Rightarrow> print_out (response i initialize_result) w)
      else if map_of req ''method'' = Some (JStr ''tools/list'') then
        (case map_of req ''id'' of
           None \<Rightarrow> print_err (Error (KeyError ''id'')) w
         | Some i \<Rightarrow> print_out (response i tools_list_result) w)
      else w)"
  using assms
  by (auto simp: simple_turn_def simple_try_def send_response_def split: option.splits)

text \<open>A read that raises ends \<^verbatim>\<open>main\<close> of simple\_server.py with the exception.\<close>

lemma simple_main_read_raises:
  "[] \<notin> set pre \<Longrightarrow>
     simple_main L (map Line pre @ Raises e # post) =
       \<lparr>exit = Uncaught e, unread = post, out = out (simple_main L (map Line pre))\<rparr>"
  by (simp add: simple_main_lines) (simp add: simple_main_def simple_loop_lines)

section \<open>The loop of basic\_server.py, line by line\<close>

lemma basic_loop_lines:
  "[] \<notin> set pre \<Longrightarrow>
     basic_loop L (map Line pre @ post) w = basic_loop L post (fold (basic_turn L) pre w)"
  by (induction pre arbitrary: w) auto

lemma basic_main_lines:
  "[] \<notin> set pre \<Longrightarrow>
     basic_main L (map Line pre) =
       \<lparr>exit = Returned, unread = [],
        out = fold (basic_turn L) pre
                (print_err (Banner ''Architecture server starting'')
                   \<lparr>stdout = [], stderr = []\<rparr>)\<rparr>"
  using basic_loop_lines [of pre L "[]"] by (simp add: basic_main_def)

lemma basic_main_snoc:
  assumes "[] \<notin> set pre" and "line \<noteq> []"
  shows "basic_main L (map Line pre @ [Line line]) =
           \<lparr>exit = Returned, unread = [],
            out = basic_turn L line (out (basic_main L (map Line pre)))\<rparr>"
  using assms by (simp add: basic_main_lines) (simp add: basic_main_def basic_loop_lines)

lemma basic_turn_object:
  assumes "json_loads L (str_strip L line) = Some (JObj req)"
  shows "basic_turn L line w =
     (case map_of req ''method'' of
        None \<Rightarrow> print_err (Error (KeyError ''method'')) w
      | Some m \<Rightarrow>
          if m = JStr ''initialize'' then
            (case map_of req ''id'' of
               None \<Rightarrow> print_err (Error (KeyError ''id'')) (print_err (Received m) w)
             | Some i \<Rightarrow>
                 print_err (Banner ''Initialized'')
                   (print_out (response i initialize_result) (print_err (Received m) w)))
          else print_err (Received m) w)"
  using assms
  by (auto simp: basic_turn_def basic_try_def Let_def split: option.splits)

text \<open>
  The end of the input in basic\_server.py: at the first empty read \<^verbatim>\<open>main\<close> returns,
  what follows stays unread and nothing more is written.
\<close>

lemma basic_main_end_of_stream:
  assumes "[] \<notin> set pre"
  shows "basic_main L (map Line pre @ Line [] # rest) =
           \<lparr>exit = Returned, unread = rest, out = out (basic_main L (map Line pre))\<rparr>"
  using assms by (simp add: basic_main_lines) (simp add: basic_main_def basic_loop_lines)

section \<open>The loops of minimal.py and minimal\_server.py\<close>

lemma keep_alive_lines: "[] \<notin> set pre \<Longrightarrow> keep_alive (map Line pre @ post) = keep_alive post"
  by (induction pre) auto

lemma keep_running_lines:
  "[] \<notin> set pre \<Longrightarrow> keep_running (map Line pre @ post) = keep_running post"
  by (induction pre) auto

text \<open>
  A first line that \<^verbatim>\<open>json.loads\<close> refuses ends \<^verbatim>\<open>main\<close> of minimal.py and of
  minimal\_server.py with the exception, before anything is written to standard output.
\<close>

lemma minimal_first_line_refused:
  assumes "json_loads L first = None"
  shows "minimal_main L (Line first # rest) =
           \<lparr>exit = Uncaught JSONDecodeError, unread = rest,
            out = \<lparr>stdout = [], stderr = []\<rparr>\<rparr>"
    and "minimal_server_main L (Line first # rest) =
           \<lparr>exit = Uncaught JSONDecodeError, unread = rest,
            out = \<lparr>stdout = [],
                   stderr = [Banner ''Architecture MCP Server starting...'']\<rparr>\<rparr>"
  using assms by (simp_all add: minimal_main_def minimal_server_main_def print_err_def)

section \<open>Runs that differ in one line\<close>

lemma simple_main_mid:
  assumes "[] \<notin> set pre" and "line \<noteq> []"
  shows "simple_main L (map Line pre @ Line line # post) =
           simple_loop L post (simple_turn L line (out (simple_main L (map Line pre))))"
    and "simple_main L (map Line pre @ post) =
           simple_loop L post (out (simple_main L (map Line pre)))"
  using assms by (simp_all add: simple_main_lines) (simp_all add: simple_main_def simple_loop_lines)

lemma simple_loop_lines_return: "exit (simple_loop L (map Line xs) w) = Returned"
  by (induction xs arbitrary: w) auto

lemma keep_running_lines_return: "fst (keep_running (map Line xs)) = Returned"
  by (induction xs) auto

section \<open>The claims of the specification\<close>

subsection \<open>C1: a request before any initialize\<close>




subsection \<open>C2: the answer to initialize\<close>




subsection \<open>C3: a method the scripts do not know\<close>

text \<open>
  Claim C3, as the code has it.  A request whose method is not \<^verbatim>\<open>initialize\<close> is never
  answered with a result, but no error response is written for it either.  In
  simple\_server.py a method that is neither \<^verbatim>\<open>initialize\<close> nor \<^verbatim>\<open>tools/list\<close>
  (\<^verbatim>\<open>tools/call\<close> included) leaves no trace: the whole run, standard error too, is the
  run of the input without that line.  In basic\_server.py every method but
  \<^verbatim>\<open>initialize\<close> adds nothing to standard output and one \<^verbatim>\<open>Received\<close> line to
  standard error.
\<close>

theorem C3_unknown_method_gets_no_response:
  assumes "[] \<notin> set pre" and "line \<noteq> []"
    and "json_loads L (str_strip L line) = Some (JObj req)"
    and "map_of req ''method'' = Some m" and "m \<noteq> JStr ''initialize''"
  shows "(m \<noteq> JStr ''tools/list'' \<longrightarrow>
            simple_main L (map Line pre @ Line line # post) = simple_main L (map Line pre @ post))
       \<and> stdout (out (basic_main L (map Line pre @ [Line line]))) =
           stdout (out (basic_main L (map Line pre)))
       \<and> stderr (out (basic_main L (map Line pre @ [Line line]))) =
           stderr (out (basic_main L (map Line pre))) @ [Received m]"
proof -
  have with_line: "simple_main L (map Line pre @ Line line # post) =
      simple_loop L post (simple_turn L line (out (simple_main L (map Line pre))))"
    by (rule simple_main_mid(1) [OF assms(1,2)])
  have without: "simple_main L (map Line pre @ post) =
      simple_loop L post (out (simple_main L (map Line pre)))"
    by (rule simple_main_mid(2) [OF assms(1,2)])
  have "simple_main L (map Line pre @ Line line # post) = simple_main L (map Line pre @ post)"
    if "m \<noteq> JStr ''tools/list''"
  proof -
    have "simple_turn L line w = w" for w
      using that assms(4,5) by (simp add: simple_turn_object [OF assms(3)])
    then show ?thesis
      unfolding with_line without by simp
  qed
  moreover have "out (basic_main L (map Line pre @ [Line line])) =
                   print_err (Received m) (out (basic_main L (map Line pre)))"
    using assms by (simp add: basic_main_snoc basic_turn_object)
  ultimately show ?thesis by simp
qed

theorem C3_unknown_method_witness:
  "[] \<notin> set [line_initialize] \<and> line_resources_list \<noteq> []
   \<and> json_loads example_lib (str_strip example_lib line_resources_list)
       = Some (JObj req_resources_list)
   \<and> map_of req_resources_list ''method'' = Some (JStr ''resources/list'')
   \<and> JStr ''resources/list'' \<noteq> JStr ''initialize''
   \<and> JStr ''resources/list'' \<noteq> JStr ''tools/list''
   \<and> simple_main example_lib
        (map Line [line_initialize] @ Line line_resources_list # [Line line_tools_list]) =
       simple_main example_lib (map Line [line_initialize] @ [Line line_tools_list])
   \<and> stdout (out (basic_main example_lib
                     (map Line [line_initialize] @ [Line line_resources_list]))) =
       stdout (out (basic_main example_lib (map Line [line_initialize])))"
  using C3_unknown_method_gets_no_response
          [of "[line_initialize]" line_resources_list example_lib req_resources_list
              "JStr ''resources/list''" "[Line line_tools_list]"]
  by (simp add: loads_stripped lines_nonempty lines_nonempty [THEN not_sym]
      req_resources_list_def)

text \<open>
  C3 as the specification words it fails: the request with id 3 and the method
  \<^verbatim>\<open>resources/list\<close> is the only line of the input, and nothing is written to standard
  output.
\<close>

theorem C3_counterexample:
  "out (simple_main example_lib [Line line_resources_list]) =
     \<lparr>stdout = [], stderr = [Banner ''Architecture MCP Server starting'']\<rparr>"
  by (simp add: simple_main_def lines_nonempty simple_turn_object [OF loads_stripped(3)]
      req_resources_list_def print_err_def)

subsection \<open>C4: required arguments of a tool\<close>

text \<open>
  Claim C4, as the code has it.  \<^verbatim>\<open>call_tool\<close> never looks at the \<^verbatim>\<open>required\<close>
  list of a tool's schema: a missing \<^verbatim>\<open>pattern_type\<close> is replaced by \<^verbatim>\<open>unknown\<close>
  and a missing \<^verbatim>\<open>pattern_data\<close> by the empty string, and no error is produced for a
  missing property.  \<^verbatim>\<open>architecture_status\<close> returns its one block for all arguments.
  \<^verbatim>\<open>add_pattern\<close> returns one block, built from the two texts, whenever each of the two
  properties is missing or a string.  Whenever a call of a registered tool returns, it
  returns a content sequence of exactly one block.  The only exception \<^verbatim>\<open>call_tool\<close>
  can raise is one that \<^verbatim>\<open>str()\<close> raises on a value that is present and is not a
  string.
\<close>

theorem C4_call_tool_never_checks_required:
  "call_tool L ''architecture_status'' arguments =
     Inr (Some [TextContent ''text''
                  ''Architecture v10.8 operational with professional accuracy enforcement''])
   \<and> (\<forall>t \<in> set list_tools. \<forall>r. call_tool L (tool_name t) arguments = Inr r \<longrightarrow>
         (\<exists>c. r = Some c \<and> length c = 1))
   \<and> (map_of arguments ''pattern_type'' = None \<and> map_of arguments ''pattern_data'' = None \<longrightarrow>
        call_tool L ''add_pattern'' arguments =
          Inr (Some [TextContent ''text'' ''Pattern unknown added: '']))
   \<and> (\<forall>d. map_of arguments ''pattern_type'' = None \<and>
           map_of arguments ''pattern_data'' = Some (JStr d) \<longrightarrow>
        call_tool L ''add_pattern'' arguments =
          Inr (Some [TextContent ''text'' (''Pattern unknown added: '' @ d)]))
   \<and> (\<forall>s. map_of arguments ''pattern_type'' = Some (JStr s) \<and>
           map_of arguments ''pattern_data'' = None \<longrightarrow>
        call_tool L ''add_pattern'' arguments =
          Inr (Some [TextContent ''text'' (''Pattern '' @ s @ '' added: '')]))
   \<and> (\<forall>s d. map_of arguments ''pattern_type'' = Some (JStr s) \<and>
             map_of arguments ''pattern_data'' = Some (JStr d) \<longrightarrow>
        call_tool L ''add_pattern'' arguments =
          Inr (Some [TextContent ''text'' (''Pattern '' @ s @ '' added: '' @ d)]))
   \<and> (\<forall>t \<in> set list_tools. \<forall>e. call_tool L (tool_name t) arguments = Inl e \<longrightarrow>
         (\<exists>k v. k \<in> {''pattern_type'', ''pattern_data''} \<and> map_of arguments k = Some v \<and>
                (\<forall>s. v \<noteq> JStr s) \<and> str_of L v = Inl e))"
proof -
  have status: "call_tool L ''architecture_status'' arguments =
     Inr (Some [TextContent ''text''
                  ''Architecture v10.8 operational with professional accuracy enforcement''])"
    by (simp add: call_tool_def)
  have one_block: "\<exists>c. r = Some c \<and> length c = 1"
    if "t \<in> set list_tools" "call_tool L (tool_name t) arguments = Inr r" for t r
  proof -
    from that(1) have "tool_name t = ''architecture_status'' \<or> tool_name t = ''add_pattern''"
      by (auto simp: list_tools_def)
    with that(2) show ?thesis
      by (auto simp: call_tool_def Let_def split: sum.splits)
  qed
  have texts:
    "map_of arguments ''pattern_type'' = None \<and> map_of arguments ''pattern_data'' = None \<longrightarrow>
        call_tool L ''add_pattern'' arguments =
          Inr (Some [TextContent ''text'' ''Pattern unknown added: ''])"
    "\<forall>d. map_of arguments ''pattern_type'' = None \<and>
           map_of arguments ''pattern_data'' = Some (JStr d) \<longrightarrow>
        call_tool L ''add_pattern'' arguments =
          Inr (Some [TextContent ''text'' (''Pattern unknown added: '' @ d)])"
    "\<forall>s. map_of arguments ''pattern_type'' = Some (JStr s) \<and>
           map_of arguments ''pattern_data'' = None \<longrightarrow>
        call_tool L ''add_pattern'' arguments =
          Inr (Some [TextContent ''text'' (''Pattern '' @ s @ '' added: '')])"
    "\<forall>s d. map_of arguments ''pattern_type'' = Some (JStr s) \<and>
             map_of arguments ''pattern_data'' = Some (JStr d) \<longrightarrow>
        call_tool L ''add_pattern'' arguments =
          Inr (Some [TextContent ''text'' (''Pattern '' @ s @ '' added: '' @ d)])"
    by (simp_all add: call_tool_def dict_get_def)
  have fmt_other: "fmt L v = Inl e \<Longrightarrow> (\<forall>s. v \<noteq> JStr s) \<and> str_of L v = Inl e" for v e
    by (cases v) auto
  have raised: "\<exists>k v. k \<in> {''pattern_type'', ''pattern_data''} \<and> map_of arguments k = Some v \<and>
                (\<forall>s. v \<noteq> JStr s) \<and> str_of L v = Inl e"
    if "t \<in> set list_tools" "call_tool L (tool_name t) arguments = Inl e" for t e
  proof -
    from that(1) have "tool_name t = ''architecture_status'' \<or> tool_name t = ''add_pattern''"
      by (auto simp: list_tools_def)
    with that(2) have add: "call_tool L ''add_pattern'' arguments = Inl e"
      by (auto simp: call_tool_def)
    then have "fmt L (dict_get arguments ''pattern_type'' (JStr ''unknown'')) = Inl e
             \<or> fmt L (dict_get arguments ''pattern_data'' (JStr '''')) = Inl e"
      by (auto simp: call_tool_def Let_def split: sum.splits)
    then show ?thesis
    proof
      assume f: "fmt L (dict_get arguments ''pattern_type'' (JStr ''unknown'')) = Inl e"
      then obtain v where "map_of arguments ''pattern_type'' = Some v"
        by (cases "map_of arguments ''pattern_type''") (auto simp: dict_get_def)
      with f fmt_other [of "v" e] show ?thesis
        by (auto simp: dict_get_def)
    next
      assume f: "fmt L (dict_get arguments ''pattern_data'' (JStr '''')) = Inl e"
      then obtain v where "map_of arguments ''pattern_data'' = Some v"
        by (cases "map_of arguments ''pattern_data''") (auto simp: dict_get_def)
      with f fmt_other [of "v" e] show ?thesis
        by (auto simp: dict_get_def)
    qed
  qed
  have blocks: "\<forall>t \<in> set list_tools. \<forall>r. call_tool L (tool_name t) arguments = Inr r \<longrightarrow>
         (\<exists>c. r = Some c \<and> length c = 1)"
    using one_block by blast
  have errors: "\<forall>t \<in> set list_tools. \<forall>e. call_tool L (tool_name t) arguments = Inl e \<longrightarrow>
         (\<exists>k v. k \<in> {''pattern_type'', ''pattern_data''} \<and> map_of arguments k = Some v \<and>
                (\<forall>s. v \<noteq> JStr s) \<and> str_of L v = Inl e)"
    using raised by blast
  show ?thesis
    by (intro conjI) (fact status, fact blocks, fact texts(1), fact texts(2), fact texts(3),
        fact texts(4), fact errors)
qed

theorem C4_call_tool_witness:
  "Tool ''add_pattern'' ''Add new architectural pattern'' add_pattern_schema \<in> set list_tools
   \<and> map_of [(''pattern_data'', JStr ''x'')] ''pattern_type'' = None
   \<and> map_of [(''pattern_data'', JStr ''x'')] ''pattern_data'' = Some (JStr ''x'')
   \<and> call_tool example_lib ''add_pattern'' [(''pattern_data'', JStr ''x'')] =
       Inr (Some [TextContent ''text'' ''Pattern unknown added: x''])"
  using C4_call_tool_never_checks_required [of example_lib "[(''pattern_data'', JStr ''x'')]"]
  by (simp add: list_tools_def)

text \<open>
  C4 as the specification words it fails: \<^verbatim>\<open>pattern_type\<close> is required by the schema of
  the second registered tool, the arguments lack it, and the call returns a result.
\<close>

theorem C4_counterexample:
  "''pattern_type'' \<in> set (required_of (list_tools ! 1))
   \<and> map_of [(''pattern_data'', JStr ''x'')] ''pattern_type'' = None
   \<and> call_tool example_lib (tool_name (list_tools ! 1)) [(''pattern_data'', JStr ''x'')] =
       Inr (Some [TextContent ''text'' ''Pattern unknown added: x''])"
  by (simp add: call_tool_def list_tools_def required_of_def add_pattern_schema_def
      dict_get_def)

subsection \<open>C5: a tool that is not registered\<close>

text \<open>
  Claim C5, as the code has it.  For a name that \<^verbatim>\<open>list_tools\<close> does not register,
  \<^verbatim>\<open>call_tool\<close> raises nothing and returns Python's \<^verbatim>\<open>None\<close>, whatever the
  arguments: no content and no error object.  The handler is never given the request id.
\<close>

theorem C5_unregistered_tool_returns_None:
  assumes "name \<notin> set (map tool_name list_tools)"
  shows "call_tool L name arguments = Inr None"
  using assms by (simp add: call_tool_def list_tools_def)

theorem C5_unregistered_tool_witness:
  "''get_user_preferences'' \<notin> set (map tool_name list_tools) \<and>
   call_tool example_lib ''get_user_preferences'' [] = Inr None"
proof -
  have h: "''get_user_preferences'' \<notin> set (map tool_name list_tools)"
    by (simp add: list_tools_def)
  from C5_unregistered_tool_returns_None [OF h] h show ?thesis by simp
qed

text \<open>
  C5 as the specification words it fails: a call of the tool \<^verbatim>\<open>echo\<close>, which is not
  registered, returns \<^verbatim>\<open>None\<close> and not an error.
\<close>

theorem C5_counterexample:
  "call_tool example_lib ''echo'' [(''text'', JStr ''hi'')] = Inr None"
  by (simp add: call_tool_def)

subsection \<open>C6: a line that is not JSON\<close>

text \<open>
  Claim C6, as the code has it.  In simple\_server.py a line that is read and that
  \<^verbatim>\<open>json.loads\<close> refuses is logged on standard error and dropped without a response,
  and the loop goes on: the way \<^verbatim>\<open>main\<close> ends, standard output and the input left
  unread are those of the run without the malformed line, so every line after it is
  answered as it would have been, and \<^verbatim>\<open>main\<close> returns when the reads after it
  deliver lines to the end of the input.  minimal\_server.py dispatches nothing after its
  first line: once the first line has been answered, every later line, malformed or
  well-formed, is read and dropped without a response, and \<^verbatim>\<open>main\<close> returns at the end
  of the input.
\<close>

theorem C6_malformed_line:
  assumes "[] \<notin> set pre" and "bad \<noteq> []"
  shows "(json_loads L (str_strip L bad) = None \<longrightarrow>
            out (simple_main L (map Line pre @ [Line bad])) =
              print_err (Error JSONDecodeError) (out (simple_main L (map Line pre)))
          \<and> exit (simple_main L (map Line pre @ Line bad # post)) =
              exit (simple_main L (map Line pre @ post))
          \<and> stdout (out (simple_main L (map Line pre @ Line bad # post))) =
              stdout (out (simple_main L (map Line pre @ post)))
          \<and> unread (simple_main L (map Line pre @ Line bad # post)) =
              unread (simple_main L (map Line pre @ post))
          \<and> exit (simple_main L (map Line pre @ Line bad # map Line later)) = Returned)
       \<and> (json_loads L first = Some (JObj req) \<and> map_of req ''id'' = Some i \<longrightarrow>
            stdout (out (minimal_server_main L (Line first # map Line pre @ Line bad # post))) =
              [response i initialize_result]
          \<and> exit (minimal_server_main L (Line first # map Line pre @ Line bad # post)) =
              fst (keep_running post)
          \<and> unread (minimal_server_main L (Line first # map Line pre @ Line bad # post)) =
              snd (keep_running post)
          \<and> exit (minimal_server_main L
                     (Line first # map Line pre @ Line bad # map Line later)) = Returned)"
proof -
  let ?w1 = "out (simple_main L (map Line pre))"
  have simple: "out (simple_main L (map Line pre @ [Line bad])) =
              print_err (Error JSONDecodeError) ?w1
          \<and> exit (simple_main L (map Line pre @ Line bad # post)) =
              exit (simple_main L (map Line pre @ post))
          \<and> stdout (out (simple_main L (map Line pre @ Line bad # post))) =
              stdout (out (simple_main L (map Line pre @ post)))
          \<and> unread (simple_main L (map Line pre @ Line bad # post)) =
              unread (simple_main L (map Line pre @ post))
          \<and> exit (simple_main L (map Line pre @ Line bad # map Line later)) = Returned"
    if a: "json_loads L (str_strip L bad) = None"
  proof -
    have turn: "simple_turn L bad w = print_err (Error JSONDecodeError) w" for w
      using a by (simp add: simple_turn_def simple_try_def)
    have with_bad: "simple_main L (map Line pre @ Line bad # xs) =
                      simple_loop L xs (print_err (Error JSONDecodeError) ?w1)" for xs
      unfolding simple_main_mid(1) [OF assms] turn by (rule refl)
    have without: "simple_main L (map Line pre @ post) = simple_loop L post ?w1"
      by (rule simple_main_mid(2) [OF assms])
    have logged: "out (simple_main L (map Line pre @ [Line bad])) =
              print_err (Error JSONDecodeError) ?w1"
      by (simp add: simple_main_snoc [OF assms] turn)
    have "stdout (out (simple_loop L post (print_err (Error JSONDecodeError) ?w1))) =
            stdout (out (simple_loop L post ?w1))"
      using simple_loop_stdout [of L post "print_err (Error JSONDecodeError) ?w1"]
            simple_loop_stdout [of L post ?w1]
      by simp
    moreover have "exit (simple_loop L post (print_err (Error JSONDecodeError) ?w1)) =
            exit (simple_loop L post ?w1)"
      by (rule simple_loop_frame)
    moreover have "unread (simple_loop L post (print_err (Error JSONDecodeError) ?w1)) =
            unread (simple_loop L post ?w1)"
      by (rule simple_loop_frame)
    moreover have "exit (simple_main L (map Line pre @ Line bad # map Line later)) = Returned"
      unfolding with_bad by (rule simple_loop_lines_return)
    ultimately show ?thesis
      using logged by (simp add: with_bad without)
  qed
  have skip: "keep_running (map Line pre @ Line bad # xs) = keep_running xs" for xs
    using assms by (simp add: keep_running_lines)
  have minimal:
    "stdout (out (minimal_server_main L (Line first # map Line pre @ Line bad # post))) =
              [response i initialize_result]
          \<and> exit (minimal_server_main L (Line first # map Line pre @ Line bad # post)) =
              fst (keep_running post)
          \<and> unread (minimal_server_main L (Line first # map Line pre @ Line bad # post)) =
              snd (keep_running post)
          \<and> exit (minimal_server_main L
                     (Line first # map Line pre @ Line bad # map Line later)) = Returned"
    if "json_loads L first = Some (JObj req)" "map_of req ''id'' = Some i"
    using that
    by (simp add: minimal_server_main_def skip keep_running_lines_return case_prod_beta)
  show ?thesis
    using simple minimal by blast
qed

theorem C6_malformed_line_witness:
  "[] \<notin> set [line_initialize] \<and> line_not_json \<noteq> []
   \<and> json_loads example_lib (str_strip example_lib line_not_json) = None
   \<and> json_loads example_lib line_initialize = Some (JObj req_initialize)
   \<and> map_of req_initialize ''id'' = Some (JInt 1)
   \<and> stdout (out (simple_main example_lib
                     (map Line [line_initialize] @ Line line_not_json # [Line line_tools_list])))
       = stdout (out (simple_main example_lib
                     (map Line [line_initialize] @ [Line line_tools_list])))
   \<and> stdout (out (minimal_server_main example_lib
                     (Line line_initialize # map Line [line_initialize]
                        @ Line line_not_json # [Line line_tools_list])))
       = [response (JInt 1) initialize_result]"
  using C6_malformed_line
          [of "[line_initialize]" line_not_json example_lib "[Line line_tools_list]"
              "[line_tools_list]" line_initialize req_initialize "JInt 1"]
  by (simp add: loads_stripped loads_raw lines_nonempty lines_nonempty [THEN not_sym]
      req_initialize_def)

text \<open>
  C6 as the specification words it fails: minimal\_server.py answers its first line, reads
  the malformed line and then the well-formed \<^verbatim>\<open>tools/list\<close> request, and writes
  nothing for the latter; the run ends with the one response of the handshake.
\<close>

theorem C6_counterexample:
  "minimal_server_main example_lib
     [Line line_initialize, Line line_not_json, Line line_tools_list] =
     \<lparr>exit = Returned, unread = [],
      out = \<lparr>stdout = [response (JInt 1) initialize_result],
             stderr = [Banner ''Architecture MCP Server starting...'',
                       Banner ''Server initialized'']\<rparr>\<rparr>"
  by (simp add: minimal_server_main_def loads_raw req_initialize_def print_out_def
      print_err_def lines_nonempty)

subsection \<open>C7: a second initialize\<close>




subsection \<open>C8: the order of the tool listing\<close>



subsection \<open>C9: the end of the input\<close>

text \<open>
  Claim C9: when a read comes back empty, the server loop is left cleanly, nothing more is
  read and nothing more is written.  basic\_server.py does so at every read
  (\<open>basic_main_end_of_stream\<close>), and so does the loop of minimal.py once it is entered
  (\<open>keep_alive\<close>).  The first read of minimal.py does not: lines 6 and 7 hand the empty
  string to \<^verbatim>\<open>json.loads\<close> without the test \<^verbatim>\<open>if not line\<close> that the loop of
  lines 25 to 27 makes, and outside any \<^verbatim>\<open>try\<close>.  On an empty input \<^verbatim>\<open>main\<close> of
  minimal.py ends with the uncaught \<^verbatim>\<open>JSONDecodeError\<close>, where \<^verbatim>\<open>main\<close> of
  basic\_server.py returns.
\<close>

theorem C9_minimal_empty_input:
  "minimal_main example_lib [] =
     \<lparr>exit = Uncaught JSONDecodeError, unread = [], out = \<lparr>stdout = [], stderr = []\<rparr>\<rparr>
   \<and> basic_main example_lib [] =
     \<lparr>exit = Returned, unread = [],
      out = \<lparr>stdout = [], stderr = [Banner ''Architecture server starting'']\<rparr>\<rparr>"
  by (simp add: minimal_main_def basic_main_def loads_empty print_err_def)

subsection \<open>C10: minimal.py and minimal\_server.py write one line\<close>

text \<open>
  Claim C10, as the code has it.  When the first line decodes to a JSON object with an
  \<^verbatim>\<open>id\<close>, whatever its method, \<^verbatim>\<open>main\<close> of minimal.py and of minimal\_server.py
  writes exactly one line to standard output whatever follows: the object with
  \<^verbatim>\<open>jsonrpc\<close> 2.0, that id and the initialize result.  When the reads after the first
  deliver lines up to the end of the input, every one of them is read and dropped and
  \<^verbatim>\<open>main\<close> returns.  A read that raises ends the reading with the rest of the input
  unread: the bare \<^verbatim>\<open>except\<close> of minimal.py leaves the loop and \<^verbatim>\<open>main\<close> returns;
  minimal\_server.py does the same on \<^verbatim>\<open>KeyboardInterrupt\<close> and ends with the
  exception on every other one.
\<close>

theorem C10_minimal_single_response:
  assumes "json_loads L first = Some (JObj req)" and "map_of req ''id'' = Some i"
  shows "stdout (out (minimal_main L (Line first # rest))) =
           [JObj [(''jsonrpc'', JStr ''2.0''), (''id'', i),
                  (''result'',
                     JObj [(''protocolVersion'', JStr ''2024-11-05''),
                           (''capabilities'', JObj [(''tools'', JObj [])]),
                           (''serverInfo'', JObj [(''name'', JStr ''architecture-server''),
                                                  (''version'', JStr ''1.0.0'')])])]]
       \<and> stdout (out (minimal_server_main L (Line first # rest))) =
           stdout (out (minimal_main L (Line first # rest)))
       \<and> exit (minimal_main L (Line first # rest)) = Returned
       \<and> unread (minimal_main L (Line first # rest)) = keep_alive rest
       \<and> exit (minimal_server_main L (Line first # rest)) = fst (keep_running rest)
       \<and> unread (minimal_server_main L (Line first # rest)) = snd (keep_running rest)
       \<and> ([] \<notin> set later \<longrightarrow>
            unread (minimal_main L (Line first # map Line later)) = [] \<and>
            unread (minimal_server_main L (Line first # map Line later)) = [] \<and>
            exit (minimal_server_main L (Line first # map Line later)) = Returned)
       \<and> ([] \<notin> set later \<longrightarrow>
            unread (minimal_main L (Line first # map Line later @ Raises e # post)) = post \<and>
            exit (minimal_main L (Line first # map Line later @ Raises e # post)) = Returned \<and>
            unread (minimal_server_main L (Line first # map Line later @ Raises e # post))
              = post \<and>
            exit (minimal_server_main L (Line first # map Line later @ Raises e # post)) =
              (if e = KeyboardInterrupt then Returned else Uncaught e))"
proof -
  have written: "stdout (out (minimal_main L (Line first # rest))) =
           [JObj [(''jsonrpc'', JStr ''2.0''), (''id'', i),
                  (''result'',
                     JObj [(''protocolVersion'', JStr ''2024-11-05''),
                           (''capabilities'', JObj [(''tools'', JObj [])]),
                           (''serverInfo'', JObj [(''name'', JStr ''architecture-server''),
                                                  (''version'', JStr ''1.0.0'')])])]]"
    using assms by (simp add: minimal_main_def response_def initialize_result_def)
  have run: "exit (minimal_main L (Line first # xs)) = Returned"
    "unread (minimal_main L (Line first # xs)) = keep_alive xs"
    "stdout (out (minimal_server_main L (Line first # xs))) =
       stdout (out (minimal_main L (Line first # xs)))"
    "exit (minimal_server_main L (Line first # xs)) = fst (keep_running xs)"
    "unread (minimal_server_main L (Line first # xs)) = snd (keep_running xs)" for xs
    using assms
    by (simp_all add: minimal_main_def minimal_server_main_def case_prod_beta)
  have all_read: "keep_alive (map Line later) = []" "keep_running (map Line later) = (Returned, [])"
    if "[] \<notin> set later"
    using that keep_alive_lines [of later "[]"] keep_running_lines [of later "[]"]
    by simp_all
  have stopped: "keep_alive (map Line later @ Raises e # post) = post"
    "keep_running (map Line later @ Raises e # post) =
       (if e = KeyboardInterrupt then (Returned, post) else (Uncaught e, post))"
    if "[] \<notin> set later"
    using that by (simp_all add: keep_alive_lines keep_running_lines)
  show ?thesis
    unfolding run using written all_read stopped by (simp add: run)
qed

theorem C10_minimal_witness:
  "json_loads example_lib line_tools_list = Some (JObj req_tools_list)
   \<and> map_of req_tools_list ''id'' = Some (JInt 2)
   \<and> [] \<notin> set [line_initialize, line_not_json]
   \<and> stdout (out (minimal_main example_lib
                     (Line line_tools_list # map Line [line_initialize, line_not_json]))) =
       [JObj [(''jsonrpc'', JStr ''2.0''), (''id'', JInt 2),
              (''result'',
                 JObj [(''protocolVersion'', JStr ''2024-11-05''),
                       (''capabilities'', JObj [(''tools'', JObj [])]),
                       (''serverInfo'', JObj [(''name'', JStr ''architecture-server''),
                                              (''version'', JStr ''1.0.0'')])])]]
   \<and> unread (minimal_main example_lib
                (Line line_tools_list # map Line [line_initialize, line_not_json])) = []
   \<and> exit (minimal_server_main example_lib
              (Line line_tools_list # map Line [line_initialize, line_not_json])) = Returned"
proof -
  have d: "json_loads example_lib line_tools_list = Some (JObj req_tools_list)"
    "map_of req_tools_list ''id'' = Some (JInt 2)"
    by (simp_all add: loads_raw req_tools_list_def)
  have h: "[] \<notin> set [line_initialize, line_not_json]"
    by (simp add: lines_nonempty [THEN not_sym])
  from C10_minimal_single_response
         [OF d, of "map Line [line_initialize, line_not_json]" "[line_initialize, line_not_json]"]
       d h
  show ?thesis by blast
qed

text \<open>
  C10 as the specification words it fails: the second read of minimal.py meets a line the
  stream cannot decode, the bare \<^verbatim>\<open>except\<close> leaves the loop, and the line after it is
  never read.
\<close>

theorem C10_counterexample:
  "minimal_main example_lib
     [Line line_tools_list, Raises UnicodeDecodeError, Line line_initialize] =
     \<lparr>exit = Returned, unread = [Line line_initialize],
      out = \<lparr>stdout = [JObj [(''jsonrpc'', JStr ''2.0''), (''id'', JInt 2),
                              (''result'', initialize_result)]],
             stderr = []\<rparr>\<rparr>"
  by (simp add: minimal_main_def loads_raw req_tools_list_def print_out_def response_def)

end
